theory Spec2Isabelle
  imports Complex_Main "HOL-Library.Sublist"
begin

section \<open>Strings\<close>

text \<open>
  A Python \<open>str\<close> is modelled as a \<open>string\<close>, that is a list of \<open>char\<close>; a \<open>char\<close> stands
  for the Unicode code point of the same number, so the model covers the texts whose code
  points are below 256, and \<open>length\<close> is Python's \<open>len\<close> on them.
\<close>

definition code_point :: "char \<Rightarrow> nat" where
  "code_point c = of_char c"

definition in_range :: "nat \<Rightarrow> nat \<Rightarrow> nat \<Rightarrow> bool" where
  "in_range lo hi n = (lo \<le> n \<and> n \<le> hi)"

text \<open>
  \<open>str.lower()\<close> on one code point below 256: the letters A to Z, and the capital letters
  of the Latin-1 block (0xC0 to 0xDE without the multiplication sign 0xD7), move up by 32;
  every other code point is left as it is.
\<close>

definition lower_char :: "char \<Rightarrow> char" where
  "lower_char c =
     (let n = code_point c in
      if in_range 65 90 n \<or> (in_range 192 222 n \<and> n \<noteq> 215) then char_of (n + 32) else c)"

definition lower :: "string \<Rightarrow> string" where
  "lower s = map lower_char s"

text \<open>
  The white space of \<open>str.strip()\<close> and of the pattern \<open>\s\<close> on a \<open>str\<close>: tab to carriage
  return, the four separators 0x1C to 0x1F, the blank, and below 256 also 0x85 and 0xA0.
\<close>

definition is_space :: "char \<Rightarrow> bool" where
  "is_space c =
     (let n = code_point c in
      in_range 9 13 n \<or> in_range 28 31 n \<or> n = 32 \<or> n = 133 \<or> n = 160)"

text \<open>
  The word characters of the pattern \<open>\w\<close> on a \<open>str\<close>: the underscore and every
  alphanumeric code point, which below 256 are the digits, the ASCII letters, and in the
  Latin-1 block the letters and the numeric signs.
\<close>

definition is_word :: "char \<Rightarrow> bool" where
  "is_word c =
     (let n = code_point c in
      in_range 48 57 n \<or> in_range 65 90 n \<or> n = 95 \<or> in_range 97 122 n \<or>
      n = 170 \<or> n = 178 \<or> n = 179 \<or> n = 181 \<or> n = 185 \<or> n = 186 \<or>
      in_range 188 190 n \<or> in_range 192 214 n \<or> in_range 216 246 n \<or>
      in_range 248 255 n)"

definition strip :: "string \<Rightarrow> string" where
  "strip s = rev (dropWhile is_space (rev (dropWhile is_space s)))"

text \<open>Python's \<open>needle in haystack\<close> on strings: \<open>needle\<close> occurs as a contiguous piece.\<close>

fun str_in :: "string \<Rightarrow> string \<Rightarrow> bool" where
  "str_in needle [] = (needle = [])"
| "str_in needle (c # cs) = (prefix needle (c # cs) \<or> str_in needle cs)"

text \<open>Python's \<open>sep.join(parts)\<close>.\<close>

fun join :: "string \<Rightarrow> string list \<Rightarrow> string" where
  "join sep [] = []"
| "join sep [p] = p"
| "join sep (p # q # ps) = p @ sep @ join sep (q # ps)"

section \<open>The fallback pattern of the guardrail\<close>

text \<open>
  The regular expression of \<open>is_office_related\<close>,
  \<^verbatim>\<open>\b(the|our|my|this)\s+(office|room|building|floor|team|department|company)\b\<close>,
  is a sequence of three kinds of items: a word boundary, a choice between literal
  words, and a run of one or more white-space characters. \<open>re_match\<close> decides whether a
  sequence of items matches at the front of a text, given the character before it (none at
  the start of the string); it tries every choice, as the backtracking of \<open>re\<close> does.
  \<open>re_search\<close> tries every start position, as \<open>re.search\<close> does.
\<close>

datatype re_item = Boundary | OneOf "string list" | Spaces

definition is_word_opt :: "char option \<Rightarrow> bool" where
  "is_word_opt x = (case x of None \<Rightarrow> False | Some c \<Rightarrow> is_word c)"

definition first_char :: "string \<Rightarrow> char option" where
  "first_char s = (case s of [] \<Rightarrow> None | c # _ \<Rightarrow> Some c)"

fun last_char :: "char option \<Rightarrow> string \<Rightarrow> char option" where
  "last_char prev [] = prev"
| "last_char prev (c # cs) = last_char (Some c) cs"

definition at_boundary :: "char option \<Rightarrow> string \<Rightarrow> bool" where
  "at_boundary prev s = (is_word_opt prev \<noteq> is_word_opt (first_char s))"

fun re_match :: "re_item list \<Rightarrow> char option \<Rightarrow> string \<Rightarrow> bool" where
  "re_match [] prev s = True"
| "re_match (Boundary # items) prev s = (at_boundary prev s \<and> re_match items prev s)"
| "re_match (OneOf ws # items) prev s =
     list_ex (\<lambda>w. prefix w s \<and> re_match items (last_char prev w) (drop (length w) s)) ws"
| "re_match (Spaces # items) prev s =
     list_ex (\<lambda>k. re_match items (last_char prev (take k s)) (drop k s))
       [1 ..< Suc (length (takeWhile is_space s))]"

fun re_search_from :: "re_item list \<Rightarrow> char option \<Rightarrow> string \<Rightarrow> bool" where
  "re_search_from items prev [] = re_match items prev []"
| "re_search_from items prev (c # cs) =
     (re_match items prev (c # cs) \<or> re_search_from items (Some c) cs)"

definition re_search :: "re_item list \<Rightarrow> string \<Rightarrow> bool" where
  "re_search items s = re_search_from items None s"

definition office_noun_pattern :: "re_item list" where
  "office_noun_pattern =
     [Boundary,
      OneOf [''the'', ''our'', ''my'', ''this''],
      Spaces,
      OneOf [''office'', ''room'', ''building'', ''floor'', ''team'', ''department'',
             ''company''],
      Boundary]"

section \<open>Guardrails\<close>

text \<open>
  The two keyword sets are Python sets; the code only asks whether some member occurs in
  the question, which does not depend on the order of iteration, so they are lists here,
  in the order of the source.
\<close>

definition OFFICE_KEYWORDS :: "string list" where
  "OFFICE_KEYWORDS =
     [''office'', ''meeting room'', ''conference room'', ''facility'', ''workspace'',
      ''desk'', ''parking'', ''cafeteria'', ''kitchen'', ''lobby'', ''reception'',
      ''floor'', ''building'', ''elevator'', ''restroom'', ''break room'',
      ''policy'', ''procedure'', ''guideline'', ''protocol'', ''standard'',
      ''regulation'', ''compliance'', ''rule'', ''handbook'', ''manual'',
      ''reservation'', ''booking'', ''schedule'', ''calendar'', ''appointment'',
      ''visitor'', ''access'', ''badge'', ''keycard'', ''security'',
      ''equipment'', ''supply'', ''supplies'', ''printer'', ''copier'', ''scanner'',
      ''projector'', ''whiteboard'', ''stationery'', ''furniture'',
      ''document'', ''form'', ''template'', ''report'', ''memo'', ''notice'',
      ''announcement'', ''newsletter'',
      ''amenity'', ''amenities'', ''service'', ''resource'', ''mail'', ''mailroom'',
      ''cleaning'', ''maintenance'', ''hvac'', ''air conditioning'', ''heating'',
      ''dress code'', ''work hours'', ''working hours'', ''remote work'',
      ''hybrid'', ''attendance'', ''leave'', ''holiday'', ''vacation'',
      ''onboarding'', ''orientation'',
      ''fire drill'', ''emergency'', ''evacuation'', ''first aid'', ''safety'']"

definition BLOCKED_TOPICS :: "string list" where
  "BLOCKED_TOPICS =
     [''stock price'', ''investment'', ''crypto'', ''bitcoin'',
      ''dating'', ''relationship'',
      ''recipe'', ''cooking'',
      ''weather forecast'',
      ''sports score'', ''game score'',
      ''movie'', ''tv show'', ''netflix'',
      ''politics'', ''election'', ''vote'',
      ''religion'']"

definition REFUSAL_OUT_OF_SCOPE :: string where
  "REFUSAL_OUT_OF_SCOPE =
     ''I can only answer questions related to office operations and policies. '' @
     ''Please ask me about office facilities, procedures, equipment, or related topics.''"

definition REFUSAL_NO_CONTEXT :: string where
  "REFUSAL_NO_CONTEXT =
     ''I don't have information about this in the current office documentation. '' @
     ''The topic may not be covered in the documents that have been loaded.''"

text \<open>
  \<open>company_terms\<close> is an optional list: \<open>None\<close> is Python's \<open>None\<close>, and the test
  \<open>if company_terms:\<close> also skips the empty list.
\<close>

definition is_office_related :: "string \<Rightarrow> string list option \<Rightarrow> bool" where
  "is_office_related question company_terms =
     (let question_lower = lower question in
      if list_ex (\<lambda>blocked. str_in blocked question_lower) BLOCKED_TOPICS then False
      else if list_ex (\<lambda>keyword. str_in keyword question_lower) OFFICE_KEYWORDS then True
      else if (case company_terms of
                 None \<Rightarrow> False
               | Some terms \<Rightarrow> list_ex (\<lambda>term. str_in (lower term) question_lower) terms)
           then True
      else if re_search office_noun_pattern question_lower then True
      else False)"

definition hallucination_markers :: "string list" where
  "hallucination_markers =
     [''i don't have access'',
      ''as an ai'',
      ''i cannot browse'',
      ''i'm not able to'',
      ''my training data'']"

text \<open>
  \<open>validate_response\<close> only asks whether the list of chunks is empty, so it is defined
  for chunks of any type.
\<close>

definition validate_response :: "string \<Rightarrow> 'c list \<Rightarrow> string" where
  "validate_response response context_chunks =
     (case context_chunks of
        [] \<Rightarrow> REFUSAL_NO_CONTEXT
      | _ # _ \<Rightarrow>
          if list_ex (\<lambda>marker. str_in marker (lower response)) hallucination_markers
          then REFUSAL_NO_CONTEXT
          else response)"

text \<open>The call inside passes no company terms: the second argument is the default \<open>None\<close>.\<close>

definition format_guardrail_refusal :: "string \<Rightarrow> string option" where
  "format_guardrail_refusal question =
     (if \<not> is_office_related question None then Some REFUSAL_OUT_OF_SCOPE else None)"

section \<open>Configuration and data\<close>

text \<open>
  The floating-point numbers of the program (a chunk's distance, the relevance threshold,
  the temperature) are values of a type \<open>'d\<close> of which only the operations the code
  applies are used: \<open>1\<close>, subtraction and the comparison \<open>\<le>\<close>. No law of arithmetic is
  assumed of them, so what is proved holds of the floats with their rounding, and of the
  rationals. Where a theorem needs \<open>x \<le> x\<close>, its type is a preorder; every float but
  NaN compares so.
\<close>

record 'd settings =
  ollama_base_url :: string
  ollama_model :: string
  ollama_timeout :: int
  retrieval_top_k :: int
  relevance_score_threshold :: 'd
  max_context_tokens :: int
  temperature :: 'd

text \<open>A retrieved chunk: the dict with keys \<open>text\<close>, \<open>metadata\<close> and \<open>distance\<close>.\<close>

record 'd chunk =
  chunk_text :: string
  metadata :: "string \<rightharpoonup> string"
  distance :: 'd

record message =
  role :: string
  content :: string

record query_result =
  answer :: string
  sources :: "string list"
  was_filtered :: bool

text \<open>The defaults of \<open>config.py\<close>, the three floating-point values as rationals.\<close>

definition default_settings :: "real settings" where
  "default_settings =
     \<lparr>ollama_base_url = ''http://localhost:11434'',
      ollama_model = ''mistral'',
      ollama_timeout = 120,
      retrieval_top_k = 5,
      relevance_score_threshold = 3 / 10,
      max_context_tokens = 1500,
      temperature = 1 / 10\<rparr>"

section \<open>The external services\<close>

text \<open>
  The vector store and the generation endpoint are outside the program. They are two
  functions of a \<open>services\<close> record: the similarity search of the store, from the query text
  and \<open>top_k\<close> to the ranked chunks, and the HTTP POST, from the request to its outcome.
  \<open>requests.post\<close> either raises \<open>requests.ConnectionError\<close>, or raises another exception
  of \<open>requests\<close> (a read timeout for one), named by its class, or returns a response. A
  response has its status code, its body as text, and what \<open>resp.json()\<close> makes of the
  body: a JSON value, or nothing when the body is not JSON. Each function of the program
  that calls a service returns the list of the calls it made beside its result.
\<close>

text \<open>A parsed JSON value, as Python has it: an object is a dict from its keys.\<close>

datatype json =
  JNull
| JBool bool
| JNumber real
| JString string
| JArray "json list"
| JObject "string \<Rightarrow> json option"

record 'd chat_request =
  req_url :: string
  req_model :: string
  req_messages :: "message list"
  req_stream :: bool
  req_temperature :: 'd
  req_timeout :: int

record http_response =
  status_code :: int
  resp_text :: string
  json_body :: "json option"

datatype post_result = ConnectionFailure | RequestFailure string | Responded http_response

record 'd services =
  vs_search :: "string \<Rightarrow> int \<Rightarrow> 'd chunk list"
  http_post :: "'d chat_request \<Rightarrow> post_result"

datatype 'd call = SearchCall string int | PostCall "'d chat_request"

text \<open>
  The exceptions that leave the program: the two that \<open>call_ollama\<close> raises itself, with
  their texts, and those it lets pass, an exception of \<open>requests.post\<close> other than
  \<open>requests.ConnectionError\<close>, with the name of its class, the \<open>JSONDecodeError\<close> of
  \<open>resp.json()\<close>, and the \<open>AttributeError\<close> of a method called on a value that has not
  got it.
\<close>

datatype error =
  ConnectionError string
| RuntimeError string
| RequestsError string
| JSONDecodeError
| AttributeError

text \<open>
  Python's \<open>x or d\<close> for an optional integer argument \<open>x\<close>: \<open>None\<close> and \<open>0\<close> are false, so
  the default \<open>d\<close> is taken for them.
\<close>

definition or_default :: "int option \<Rightarrow> int \<Rightarrow> int" where
  "or_default x d = (case x of None \<Rightarrow> d | Some n \<Rightarrow> if n = 0 then d else n)"

text \<open>\<open>VectorStore.search\<close>: \<open>top_k = top_k or settings.retrieval_top_k\<close>, then the store.\<close>

definition vector_store_search ::
  "'d settings \<Rightarrow> 'd services \<Rightarrow> string \<Rightarrow> int option \<Rightarrow> 'd call list \<times> 'd chunk list" where
  "vector_store_search cfg srv query_text top_k =
     (let k = or_default top_k (retrieval_top_k cfg)
      in ([SearchCall query_text k], vs_search srv query_text k))"

section \<open>Context and prompt\<close>

definition SYSTEM_PROMPT :: string where
  \<open>SYSTEM_PROMPT =
     ''You are an Office Information Assistant specialized in answering questions ONLY about company office operations, policies, facilities, and documentation. Your knowledge is strictly limited to the provided context from office documents.\<newline>'' @
     ''\<newline>'' @
     ''# GUARDRAILS & BOUNDARIES:\<newline>'' @
     ''1. ONLY answer questions related to:\<newline>'' @
     ''   - Office policies, procedures, and guidelines\<newline>'' @
     ''   - Facility information (meeting rooms, equipment, amenities)\<newline>'' @
     ''   - Employee resources and office services\<newline>'' @
     ''   - Documented office protocols and standards\<newline>'' @
     ''   - Company-specific office operations\<newline>'' @
     ''\<newline>'' @
     ''2. STRICTLY REFUSE to answer questions about:\<newline>'' @
     ''   - Personal matters unrelated to office operations\<newline>'' @
     ''   - Technical IT support beyond basic office equipment\<newline>'' @
     ''   - Financial, legal, or HR matters unless specifically in office context\<newline>'' @
     ''   - External topics, news, or unrelated subjects\<newline>'' @
     ''   - Speculative or hypothetical scenarios outside office scope\<newline>'' @
     ''\<newline>'' @
     ''# RESPONSE PROTOCOL:\<newline>'' @
     ''- Use ONLY information from the provided context\<newline>'' @
     ''- If context doesn't contain the answer, say: "I don't have information about this in the office documentation."\<newline>'' @
     ''- If the question is outside office scope, say: "I can only answer questions related to office operations and policies."\<newline>'' @
     ''- Never speculate or use external knowledge\<newline>'' @
     ''- Be concise and reference specific office documents when possible\<newline>''\<close>

text \<open>\<open>chunk["metadata"].get("filename", "Unknown")\<close>.\<close>

definition chunk_source :: "'d chunk \<Rightarrow> string" where
  "chunk_source c = (case metadata c ''filename'' of None \<Rightarrow> ''Unknown'' | Some f \<Rightarrow> f)"

definition format_entry :: "'d chunk \<Rightarrow> string" where
  "format_entry c = ''[Source: '' @ chunk_source c @ '']\<newline>'' @ chunk_text c"

definition CONTEXT_SEPARATOR :: string where
  "CONTEXT_SEPARATOR = ''\<newline>\<newline>---\<newline>\<newline>''"

text \<open>
  The loop of \<open>build_context\<close> over the chunks, with its two variables \<open>context_parts\<close> and
  \<open>total_len\<close>; \<open>limit\<close> is \<open>max_tokens * 4\<close>. The \<open>break\<close> returns the parts collected so far.
\<close>

fun context_loop :: "int \<Rightarrow> 'd chunk list \<Rightarrow> string list \<Rightarrow> int \<Rightarrow> string list" where
  "context_loop limit [] context_parts total_len = context_parts"
| "context_loop limit (c # chunks) context_parts total_len =
     (let entry = format_entry c in
      if total_len + int (length entry) > limit then context_parts
      else context_loop limit chunks (context_parts @ [entry])
             (total_len + int (length entry)))"

text \<open>\<open>build_context\<close>, with \<open>max_tokens = max_tokens or settings.max_context_tokens\<close>.\<close>

definition build_context :: "'d settings \<Rightarrow> 'd chunk list \<Rightarrow> int option \<Rightarrow> string" where
  "build_context cfg chunks max_tokens =
     (let max_tokens' = or_default max_tokens (max_context_tokens cfg)
      in join CONTEXT_SEPARATOR (context_loop (max_tokens' * 4) chunks [] 0))"

definition build_prompt :: "string \<Rightarrow> string \<Rightarrow> message list" where
  "build_prompt context question =
     (let user_content =
        ''# CONTEXT FROM OFFICE DOCUMENTS:\<newline>'' @ context @ ''\<newline>'' @
        ''\<newline>'' @
        ''# QUESTION:\<newline>'' @ question @ ''\<newline>'' @
        ''\<newline>'' @
        ''Answer the question using ONLY the context above. If the answer is not in the context, say you don't have that information.''
      in [\<lparr>role = ''system'', content = SYSTEM_PROMPT\<rparr>,
          \<lparr>role = ''user'', content = user_content\<rparr>])"

section \<open>The generation call\<close>

text \<open>Python's \<open>str\<close> of an integer, for the text of the error.\<close>

definition digit_char :: "nat \<Rightarrow> char" where
  "digit_char d = char_of (48 + d)"

fun str_nat :: "nat \<Rightarrow> string" where
  "str_nat n = (if n < 10 then [digit_char n] else str_nat (n div 10) @ [digit_char (n mod 10)])"

declare str_nat.simps [simp del]

definition str_int :: "int \<Rightarrow> string" where
  "str_int i = (if i < 0 then CHR ''-'' # str_nat (nat (- i)) else str_nat (nat i))"

text \<open>
  \<open>x.get(key, default)\<close> on a parsed JSON value: the lookup of a dict; any other value has
  no method \<open>get\<close>. \<open>x.strip()\<close>: only a string has it.
\<close>

fun dict_get :: "json \<Rightarrow> string \<Rightarrow> json \<Rightarrow> error + json" where
  "dict_get (JObject d) key dflt = Inr (case d key of None \<Rightarrow> dflt | Some v \<Rightarrow> v)"
| "dict_get _ key dflt = Inl AttributeError"

fun str_strip :: "json \<Rightarrow> error + string" where
  "str_strip (JString t) = Inr (strip t)"
| "str_strip _ = Inl AttributeError"

text \<open>
  The last two lines of \<open>call_ollama\<close>: \<open>data = resp.json()\<close>, which raises when the body
  is not JSON, and \<open>data.get("message", {}).get("content", "").strip()\<close>, where each
  method call raises when the value before it is not of the type expected.
\<close>

definition response_content :: "http_response \<Rightarrow> error + string" where
  "response_content resp =
     (case json_body resp of
        None \<Rightarrow> Inl JSONDecodeError
      | Some data \<Rightarrow>
          (case dict_get data ''message'' (JObject Map.empty) of
             Inl e \<Rightarrow> Inl e
           | Inr message_obj \<Rightarrow>
               (case dict_get message_obj ''content'' (JString []) of
                  Inl e \<Rightarrow> Inl e
                | Inr content_val \<Rightarrow> str_strip content_val)))"

text \<open>
  \<open>call_ollama\<close>: one POST of the payload, the request with its URL and its time limit.
  \<open>requests.ConnectionError\<close> is caught and raised as \<open>ConnectionError\<close>; any other
  exception of the POST is not caught. A status other than 200 is raised as
  \<open>RuntimeError\<close>; otherwise the result is the content of the response.
\<close>

definition chat_payload :: "'d settings \<Rightarrow> message list \<Rightarrow> 'd chat_request" where
  "chat_payload cfg messages =
     (let url = ollama_base_url cfg @ ''/api/chat''
      in \<lparr>req_url = url, req_model = ollama_model cfg, req_messages = messages,
          req_stream = False, req_temperature = temperature cfg,
          req_timeout = ollama_timeout cfg\<rparr>)"

definition call_ollama ::
  "'d settings \<Rightarrow> 'd services \<Rightarrow> message list \<Rightarrow> 'd call list \<times> (error + string)" where
  "call_ollama cfg srv messages =
     (let payload = chat_payload cfg messages
      in ([PostCall payload],
          (case http_post srv payload of
             ConnectionFailure \<Rightarrow>
               Inl (ConnectionError
                     (''Cannot connect to Ollama at '' @ ollama_base_url cfg @ ''. '' @
                      ''Make sure Ollama is running (ollama serve).''))
           | RequestFailure exception_name \<Rightarrow> Inl (RequestsError exception_name)
           | Responded resp \<Rightarrow>
               if status_code resp \<noteq> 200
               then Inl (RuntimeError
                          (''Ollama returned status '' @ str_int (status_code resp) @ '': '' @
                           resp_text resp))
               else response_content resp)))"

section \<open>The pipeline\<close>

text \<open>The list comprehension of \<open>query\<close> that keeps the chunks near enough.\<close>

definition relevance_filter ::
  "('d::{ord,minus,one}) settings \<Rightarrow> 'd chunk list \<Rightarrow> 'd chunk list" where
  "relevance_filter cfg chunks =
     [c \<leftarrow> chunks. distance c \<le> 1 - relevance_score_threshold cfg]"

text \<open>The loop that removes the duplicates, with its variables \<open>seen\<close> and \<open>unique_sources\<close>.\<close>

fun unique_loop :: "string list \<Rightarrow> string set \<Rightarrow> string list \<Rightarrow> string list" where
  "unique_loop [] seen unique_sources = unique_sources"
| "unique_loop (s # rest) seen unique_sources =
     (if s \<notin> seen then unique_loop rest (insert s seen) (unique_sources @ [s])
      else unique_loop rest seen unique_sources)"

text \<open>Python's truth value of \<open>refusal\<close>, a string or \<open>None\<close>.\<close>

definition truthy :: "string option \<Rightarrow> bool" where
  "truthy r = (case r of None \<Rightarrow> False | Some s \<Rightarrow> s \<noteq> [])"

text \<open>
  \<open>RAGPipeline.query\<close>. The result is the list of the calls made to the services, and
  either the exception raised (\<open>Inl\<close>) or the dict returned (\<open>Inr\<close>).
\<close>

definition query ::
  "('d::{ord,minus,one}) settings \<Rightarrow> 'd services \<Rightarrow> string \<Rightarrow> string list option
     \<Rightarrow> 'd call list \<times> (error + query_result)" where
  "query cfg srv question company_terms =
     (let refusal = format_guardrail_refusal question in
      if truthy refusal
      then ([], Inr \<lparr>answer = the refusal, sources = [], was_filtered = True\<rparr>)
      else
        let enhanced_query = ''office information: '' @ question;
            (calls1, chunks) = vector_store_search cfg srv enhanced_query None;
            filtered_chunks = relevance_filter cfg chunks
        in if List.null filtered_chunks
           then (calls1,
                 Inr \<lparr>answer = REFUSAL_NO_CONTEXT, sources = [], was_filtered = False\<rparr>)
           else
             let context = build_context cfg filtered_chunks None;
                 messages = build_prompt context question;
                 (calls2, generated) = call_ollama cfg srv messages
             in (case generated of
                   Inl e \<Rightarrow> (calls1 @ calls2, Inl e)
                 | Inr raw_response \<Rightarrow>
                     let final_response = validate_response raw_response filtered_chunks;
                         srcs = map chunk_source filtered_chunks;
                         unique_sources = unique_loop srcs {} []
                     in (calls1 @ calls2,
                         Inr \<lparr>answer = final_response, sources = unique_sources,
                              was_filtered = False\<rparr>)))"

section \<open>Notions used in the statements\<close>

text \<open>
  The values that \<open>query\<close> computes on its way, named so that the theorems can speak of
  them: the chunks the store returns for the question, those that pass the relevance
  filter, the request sent to the generation endpoint, and the call to the store.
  \<open>ungrounded\<close> says that the lower-cased response contains a hallucination marker, and
  \<open>first_occurrences\<close> is the list of the values at the positions where the value has not
  occurred before, in the order of the positions.
\<close>

definition retrieved_chunks :: "'d settings \<Rightarrow> 'd services \<Rightarrow> string \<Rightarrow> 'd chunk list" where
  "retrieved_chunks cfg srv question =
     vs_search srv (''office information: '' @ question) (retrieval_top_k cfg)"

definition filtered_chunks ::
  "('d::{ord,minus,one}) settings \<Rightarrow> 'd services \<Rightarrow> string \<Rightarrow> 'd chunk list" where
  "filtered_chunks cfg srv question = relevance_filter cfg (retrieved_chunks cfg srv question)"

definition generation_request ::
  "('d::{ord,minus,one}) settings \<Rightarrow> 'd services \<Rightarrow> string \<Rightarrow> 'd chat_request" where
  "generation_request cfg srv question =
     chat_payload cfg
       (build_prompt (build_context cfg (filtered_chunks cfg srv question) None) question)"

definition search_call :: "'d settings \<Rightarrow> string \<Rightarrow> 'd call" where
  "search_call cfg question =
     SearchCall (''office information: '' @ question) (retrieval_top_k cfg)"

definition ungrounded :: "string \<Rightarrow> bool" where
  "ungrounded response =
     (\<exists>marker \<in> set hallucination_markers. \<exists>a b. lower response = a @ marker @ b)"

definition first_occurrences :: "'a list \<Rightarrow> 'a list" where
  "first_occurrences xs =
     map (\<lambda>i. xs ! i) (filter (\<lambda>i. xs ! i \<notin> set (take i xs)) [0 ..< length xs])"

text \<open>The summed length of the formatted entries of a list of chunks, separators apart.\<close>

definition entries_length :: "'d chunk list \<Rightarrow> int" where
  "entries_length cs = (\<Sum>c\<leftarrow>cs. int (length (format_entry c)))"

text \<open>Test data: a chunk with a file name, a store and an endpoint with fixed answers.\<close>

definition named_chunk :: "string \<Rightarrow> real \<Rightarrow> string \<Rightarrow> real chunk" where
  "named_chunk name d body =
     \<lparr>chunk_text = body, metadata = [''filename'' \<mapsto> name], distance = d\<rparr>"

definition unnamed_chunk :: "real \<Rightarrow> string \<Rightarrow> real chunk" where
  "unnamed_chunk d body = \<lparr>chunk_text = body, metadata = Map.empty, distance = d\<rparr>"

definition fixed_services :: "real chunk list \<Rightarrow> post_result \<Rightarrow> real services" where
  "fixed_services chunks outcome =
     \<lparr>vs_search = (\<lambda>query_text k. chunks), http_post = (\<lambda>request. outcome)\<rparr>"

definition ok_response :: "string \<Rightarrow> post_result" where
  \<open>ok_response reply =
     Responded
       \<lparr>status_code = 200,
        resp_text = ''{"message": {"role": "assistant", "content": "'' @ reply @ ''"}}'',
        json_body =
          Some (JObject [''message'' \<mapsto>
                  JObject [''role'' \<mapsto> JString ''assistant'',
                           ''content'' \<mapsto> JString reply]])\<rparr>\<close>

section \<open>Basic facts\<close>

lemma str_in_iff: "str_in needle s \<longleftrightarrow> (\<exists>a b. s = a @ needle @ b)"
proof (induction s)
  case Nil
  show ?case by auto
next
  case (Cons c cs)
  have "(\<exists>a b. c # cs = a @ needle @ b) \<longleftrightarrow> sublist needle (c # cs)"
    by (simp add: sublist_def)
  also have "\<dots> \<longleftrightarrow> prefix needle (c # cs) \<or> sublist needle cs"
    by (rule sublist_Cons_right)
  also have "\<dots> \<longleftrightarrow> prefix needle (c # cs) \<or> str_in needle cs"
    using Cons.IH by (simp add: sublist_def)
  finally show ?case by simp
qed

lemma list_ex_str_in:
  "list_ex (\<lambda>p. str_in p s) ps \<longleftrightarrow> (\<exists>p \<in> set ps. \<exists>a b. s = a @ p @ b)"
  by (simp add: list_ex_iff str_in_iff)

lemma validate_response_ungrounded:
  "chunks \<noteq> [] \<Longrightarrow>
   validate_response response chunks = (if ungrounded response then REFUSAL_NO_CONTEXT else response)"
  by (cases chunks) (simp_all add: validate_response_def list_ex_str_in ungrounded_def)

lemma refusal_out_of_scope_nonempty: "REFUSAL_OUT_OF_SCOPE \<noteq> []"
  by (simp add: REFUSAL_OUT_OF_SCOPE_def)

lemma query_rejected:
  "\<not> is_office_related question None \<Longrightarrow>
   query cfg srv question company_terms =
     ([], Inr \<lparr>answer = REFUSAL_OUT_OF_SCOPE, sources = [], was_filtered = True\<rparr>)"
  by (simp add: query_def format_guardrail_refusal_def truthy_def refusal_out_of_scope_nonempty)

lemma query_accepted:
  "is_office_related question None \<Longrightarrow>
   query cfg srv question company_terms =
     (if filtered_chunks cfg srv question = []
      then ([search_call cfg question],
            Inr \<lparr>answer = REFUSAL_NO_CONTEXT, sources = [], was_filtered = False\<rparr>)
      else
        ([search_call cfg question, PostCall (generation_request cfg srv question)],
         (case snd (call_ollama cfg srv
                (build_prompt (build_context cfg (filtered_chunks cfg srv question) None) question)) of
            Inl e \<Rightarrow> Inl e
          | Inr raw_response \<Rightarrow>
              Inr \<lparr>answer = validate_response raw_response (filtered_chunks cfg srv question),
                   sources = unique_loop (map chunk_source (filtered_chunks cfg srv question)) {} [],
                   was_filtered = False\<rparr>)))"
  by (simp add: query_def format_guardrail_refusal_def truthy_def vector_store_search_def
      or_default_def filtered_chunks_def retrieved_chunks_def search_call_def
      generation_request_def call_ollama_def Let_def split: sum.splits post_result.splits)

lemma refusal_no_context_clean:
  "list_ex (\<lambda>marker. str_in marker (lower REFUSAL_NO_CONTEXT)) hallucination_markers = False"
  by code_simp

lemma call_ollama_result:
  "snd (call_ollama cfg srv messages) =
     (case http_post srv (chat_payload cfg messages) of
        ConnectionFailure \<Rightarrow>
          Inl (ConnectionError
                (''Cannot connect to Ollama at '' @ ollama_base_url cfg @ ''. '' @
                 ''Make sure Ollama is running (ollama serve).''))
      | RequestFailure exception_name \<Rightarrow> Inl (RequestsError exception_name)
      | Responded resp \<Rightarrow>
          if status_code resp \<noteq> 200
          then Inl (RuntimeError
                     (''Ollama returned status '' @ str_int (status_code resp) @ '': '' @
                      resp_text resp))
          else response_content resp)"
  by (simp add: call_ollama_def Let_def split: post_result.splits)

lemma unique_loop_index:
  "unique_loop xs seen acc =
     acc @ map (\<lambda>i. xs ! i) (filter (\<lambda>i. xs ! i \<notin> seen \<union> set (take i xs)) [0 ..< length xs])"
proof (induction xs arbitrary: seen acc)
  case Nil
  show ?case by simp
next
  case (Cons x xs)
  have upt: "[0 ..< Suc (length xs)] = 0 # map Suc [0 ..< length xs]"
    by (simp add: upt_conv_Cons map_Suc_upt del: upt_Suc)
  have shift:
    "map (\<lambda>i. (x # xs) ! i)
       (filter (\<lambda>i. (x # xs) ! i \<notin> seen \<union> set (take i (x # xs))) (map Suc js)) =
     map (\<lambda>i. xs ! i) (filter (\<lambda>i. xs ! i \<notin> insert x seen \<union> set (take i xs)) js)" for js
    by (induction js) auto
  show ?case
  proof (cases "x \<in> seen")
    case True
    then have "insert x seen = seen" by auto
    with True show ?thesis
      using shift [of "[0 ..< length xs]"] by (simp add: upt Cons.IH del: upt_Suc)
  next
    case False
    then show ?thesis
      using shift [of "[0 ..< length xs]"] by (simp add: upt Cons.IH del: upt_Suc)
  qed
qed

lemma unique_loop_first_occurrences: "unique_loop xs {} [] = first_occurrences xs"
  by (simp add: unique_loop_index first_occurrences_def)

lemma unique_loop_set: "set (unique_loop xs seen acc) = set acc \<union> (set xs - seen)"
  by (induction xs arbitrary: seen acc) auto

lemma unique_loop_distinct:
  "distinct acc \<Longrightarrow> set acc \<subseteq> seen \<Longrightarrow> distinct (unique_loop xs seen acc)"
proof (induction xs arbitrary: seen acc)
  case Nil
  then show ?case by simp
next
  case (Cons x xs)
  show ?case
  proof (cases "x \<in> seen")
    case True
    with Cons show ?thesis by simp
  next
    case False
    with Cons.prems have "distinct (acc @ [x])" and "set (acc @ [x]) \<subseteq> insert x seen"
      by auto
    then have "distinct (unique_loop xs (insert x seen) (acc @ [x]))"
      by (rule Cons.IH)
    with False show ?thesis by simp
  qed
qed

lemma join_length:
  "ps \<noteq> [] \<Longrightarrow>
   int (length (join sep ps)) =
     (\<Sum>p\<leftarrow>ps. int (length p)) + int (length sep) * (int (length ps) - 1)"
  by (induction sep ps rule: join.induct) (simp_all add: algebra_simps)

lemma context_loop_prefix:
  "\<exists>n\<le>length cs.
     context_loop limit cs parts tot = parts @ map format_entry (take n cs) \<and>
     (0 < n \<longrightarrow> tot + entries_length (take n cs) \<le> limit) \<and>
     (n < length cs \<longrightarrow> limit < tot + entries_length (take (Suc n) cs))"
proof (induction cs arbitrary: parts tot)
  case Nil
  show ?case by simp
next
  case (Cons c cs)
  let ?e = "format_entry c"
  show ?case
  proof (cases "tot + int (length ?e) > limit")
    case True
    then show ?thesis
      by (intro exI [of _ 0]) (simp add: entries_length_def)
  next
    case False
    obtain n where n: "n \<le> length cs"
      and res: "context_loop limit cs (parts @ [?e]) (tot + int (length ?e)) =
                  (parts @ [?e]) @ map format_entry (take n cs)"
      and fit: "0 < n \<longrightarrow> (tot + int (length ?e)) + entries_length (take n cs) \<le> limit"
      and stop: "n < length cs \<longrightarrow>
                  limit < (tot + int (length ?e)) + entries_length (take (Suc n) cs)"
      using Cons.IH [of "parts @ [?e]" "tot + int (length ?e)"] by blast
    have fit': "tot + entries_length (take (Suc n) (c # cs)) \<le> limit"
      using fit False by (cases n) (simp_all add: entries_length_def add.assoc)
    have stop': "Suc n < length (c # cs) \<longrightarrow>
                   limit < tot + entries_length (take (Suc (Suc n)) (c # cs))"
      using stop by (simp add: entries_length_def add.assoc)
    show ?thesis
      using n res fit' stop' False
      by (intro exI [of _ "Suc n"]) (simp add: Let_def)
  qed
qed

lemma separator_length: "length CONTEXT_SEPARATOR = 7"
  by (simp add: CONTEXT_SEPARATOR_def)

section \<open>The guardrail inside the pipeline, and the relevance filter\<close>

lemma fixed_filtered:
  "filtered_chunks default_settings (fixed_services chunks outcome) question =
     [c \<leftarrow> chunks. distance c \<le> 7 / 10]"
  by (simp add: filtered_chunks_def retrieved_chunks_def relevance_filter_def
      fixed_services_def default_settings_def)

lemma fixed_post: "http_post (fixed_services chunks outcome) request = outcome"
  by (simp add: fixed_services_def)

lemma dress_code_in_scope: "is_office_related ''What is the dress code policy?'' None = True"
  by code_simp

lemma acme_out_of_scope: "is_office_related ''Tell me about Acme'' None = False"
  by code_simp

lemma acme_term_accepted: "is_office_related ''Tell me about Acme'' (Some [''Acme'']) = True"
  by code_simp

lemma query_company_terms_unused:
  fixes cfg :: "('d::{ord,minus,one}) settings"
  shows "query cfg srv question company_terms = query cfg srv question None"
  by (simp add: query_def)

lemma acme_not_blocked:
  "list_ex (\<lambda>blocked. str_in blocked (lower ''Tell me about Acme'')) BLOCKED_TOPICS = False"
  by code_simp

lemma acme_contains_term: "str_in (lower ''Acme'') (lower ''Tell me about Acme'') = True"
  by code_simp

text \<open>
  C1. The claim: a question that contains no blocked phrase and contains, without regard
  to case, a term of the \<open>company_terms\<close> given to \<open>query\<close> is classified in scope. The
  code does otherwise: \<open>query\<close> hands only the question to \<open>format_guardrail_refusal\<close>,
  which calls \<open>is_office_related\<close> without the terms. For the question
  \<open>Tell me about Acme\<close> and the term \<open>Acme\<close>, the classifier given the terms
  accepts, yet \<open>query\<close> returns the out-of-scope refusal with \<open>was_filtered\<close> true, and
  calls no service.
\<close>

theorem query_drops_company_terms:
  fixes cfg :: "('d::{ord,minus,one}) settings"
  shows "list_ex (\<lambda>blocked. str_in blocked (lower ''Tell me about Acme'')) BLOCKED_TOPICS = False \<and>
         str_in (lower ''Acme'') (lower ''Tell me about Acme'') = True \<and>
         is_office_related ''Tell me about Acme'' (Some [''Acme'']) = True \<and>
         query cfg srv ''Tell me about Acme'' (Some [''Acme'']) =
           ([], Inr \<lparr>answer = REFUSAL_OUT_OF_SCOPE, sources = [], was_filtered = True\<rparr>)"
  using acme_not_blocked acme_contains_term acme_term_accepted
    query_rejected [of "''Tell me about Acme''" cfg srv "Some [''Acme'']"] acme_out_of_scope
  by simp

text \<open>
  C4. The relevance filter keeps exactly the chunks whose distance is at most
  \<open>1 - relevance_score_threshold\<close>, in their order: the result is a subsequence of the
  retrieved list, every chunk occurs in it as often as in the retrieved list if its
  distance is within the bound and not at all otherwise, and a chunk whose distance equals
  the bound is kept.
\<close>

theorem relevance_filter_exact:
  fixes cfg :: "('d::{preorder,minus,one}) settings"
  shows "subseq (relevance_filter cfg chunks) chunks \<and>
         (\<forall>c. count_list (relevance_filter cfg chunks) c =
                (if distance c \<le> 1 - relevance_score_threshold cfg
                 then count_list chunks c else 0)) \<and>
         (\<forall>c \<in> set chunks. distance c = 1 - relevance_score_threshold cfg \<longrightarrow>
                c \<in> set (relevance_filter cfg chunks))"
proof (intro conjI allI ballI impI)
  show "subseq (relevance_filter cfg chunks) chunks"
    by (simp add: relevance_filter_def)
next
  fix c
  show "count_list (relevance_filter cfg chunks) c =
          (if distance c \<le> 1 - relevance_score_threshold cfg then count_list chunks c else 0)"
    unfolding relevance_filter_def by (induction chunks) auto
next
  fix c
  assume "c \<in> set chunks" and "distance c = 1 - relevance_score_threshold cfg"
  then show "c \<in> set (relevance_filter cfg chunks)"
    by (simp add: relevance_filter_def)
qed

theorem relevance_filter_exact_witness:
  "relevance_filter default_settings
     [named_chunk ''a.pdf'' (2 / 10) ''A'', named_chunk ''b.pdf'' (9 / 10) ''B'',
      named_chunk ''c.pdf'' (7 / 10) ''C''] =
   [named_chunk ''a.pdf'' (2 / 10) ''A'', named_chunk ''c.pdf'' (7 / 10) ''C''] \<and>
   distance (named_chunk ''c.pdf'' (7 / 10) ''C'') = 1 - relevance_score_threshold default_settings \<and>
   named_chunk ''c.pdf'' (7 / 10) ''C'' \<in> set (relevance_filter default_settings
     [named_chunk ''a.pdf'' (2 / 10) ''A'', named_chunk ''b.pdf'' (9 / 10) ''B'',
      named_chunk ''c.pdf'' (7 / 10) ''C''])"
proof -
  let ?cs = "[named_chunk ''a.pdf'' (2 / 10) ''A'', named_chunk ''b.pdf'' (9 / 10) ''B'',
      named_chunk ''c.pdf'' (7 / 10) ''C'']"
  have mem: "named_chunk ''c.pdf'' (7 / 10) ''C'' \<in> set ?cs" by simp
  have edge: "distance (named_chunk ''c.pdf'' (7 / 10) ''C'') =
                1 - relevance_score_threshold default_settings"
    by (simp add: named_chunk_def default_settings_def)
  have "named_chunk ''c.pdf'' (7 / 10) ''C'' \<in> set (relevance_filter default_settings ?cs)"
    using relevance_filter_exact [of default_settings ?cs] mem edge by blast
  moreover have "relevance_filter default_settings ?cs =
     [named_chunk ''a.pdf'' (2 / 10) ''A'', named_chunk ''c.pdf'' (7 / 10) ''C'']"
    by (simp add: relevance_filter_def named_chunk_def default_settings_def)
  ultimately show ?thesis using edge by simp
qed

section \<open>Outcomes of the pipeline\<close>


lemma query_outcome:
  fixes cfg :: "('d::{ord,minus,one}) settings"
  assumes "is_office_related question None" and "filtered_chunks cfg srv question \<noteq> []"
  shows "snd (query cfg srv question company_terms) =
           (case http_post srv (generation_request cfg srv question) of
              ConnectionFailure \<Rightarrow>
                Inl (ConnectionError
                      (''Cannot connect to Ollama at '' @ ollama_base_url cfg @ ''. '' @
                       ''Make sure Ollama is running (ollama serve).''))
            | RequestFailure exception_name \<Rightarrow> Inl (RequestsError exception_name)
            | Responded resp \<Rightarrow>
                if status_code resp \<noteq> 200
                then Inl (RuntimeError
                           (''Ollama returned status '' @ str_int (status_code resp) @ '': '' @
                            resp_text resp))
                else (case response_content resp of
                        Inl e \<Rightarrow> Inl e
                      | Inr raw \<Rightarrow>
                          Inr \<lparr>answer = (if ungrounded raw then REFUSAL_NO_CONTEXT else raw),
                               sources = first_occurrences
                                 (map chunk_source (filtered_chunks cfg srv question)),
                               was_filtered = False\<rparr>))"
  using assms
  by (simp add: query_accepted call_ollama_result generation_request_def
      validate_response_ungrounded unique_loop_first_occurrences
      split: post_result.splits sum.splits)



text \<open>
  C6. If the question passes the guardrail and no retrieved chunk has a distance within
  the bound, \<open>query\<close> returns the no-context refusal with no sources and \<open>was_filtered\<close>
  false, and the only call made is the search: no request goes to the generation endpoint.
\<close>

theorem query_no_context:
  fixes cfg :: "('d::{ord,minus,one}) settings"
  assumes "is_office_related question None"
    and "\<forall>c \<in> set (retrieved_chunks cfg srv question).
           \<not> distance c \<le> 1 - relevance_score_threshold cfg"
  shows "query cfg srv question company_terms =
           ([search_call cfg question],
            Inr \<lparr>answer = REFUSAL_NO_CONTEXT, sources = [], was_filtered = False\<rparr>)"
proof -
  have "filtered_chunks cfg srv question = []"
    using assms(2) by (simp add: filtered_chunks_def relevance_filter_def filter_empty_conv)
  with assms(1) show ?thesis by (simp add: query_accepted)
qed

lemma query_done:
  fixes cfg :: "('d::{ord,minus,one}) settings"
  assumes "is_office_related question None" and "filtered_chunks cfg srv question \<noteq> []"
    and "snd (query cfg srv question company_terms) = Inr result"
  shows "sources result = unique_loop (map chunk_source (filtered_chunks cfg srv question)) {} []"
  using assms by (auto simp: query_accepted split: sum.splits)

text \<open>
  C8. When \<open>query\<close> returns a result for a question in scope with a non-empty filtered
  list, its sources are the file names of the filtered chunks, each once, in the order of
  the first occurrences.
\<close>

theorem query_sources_deduplicated:
  fixes cfg :: "('d::{ord,minus,one}) settings"
  assumes "is_office_related question None" and "filtered_chunks cfg srv question \<noteq> []"
    and "snd (query cfg srv question company_terms) = Inr result"
  shows "sources result = first_occurrences (map chunk_source (filtered_chunks cfg srv question)) \<and>
         distinct (sources result) \<and>
         set (sources result) = set (map chunk_source (filtered_chunks cfg srv question))"
  using query_done [OF assms]
  by (simp add: unique_loop_first_occurrences [symmetric] unique_loop_distinct unique_loop_set)

text \<open>
  C10. When \<open>query\<close> returns a result for a question in scope with a non-empty filtered
  list, the sources are not empty, and every filtered chunk has its entry in them: its file
  name, or \<open>Unknown\<close> when its metadata has none.
\<close>

theorem query_sources_nonempty:
  fixes cfg :: "('d::{ord,minus,one}) settings"
  assumes "is_office_related question None" and "filtered_chunks cfg srv question \<noteq> []"
    and "snd (query cfg srv question company_terms) = Inr result"
  shows "sources result \<noteq> [] \<and>
         (\<forall>c \<in> set (filtered_chunks cfg srv question).
            (case metadata c ''filename'' of None \<Rightarrow> ''Unknown'' | Some name \<Rightarrow> name)
              \<in> set (sources result))"
proof -
  have "set (sources result) = chunk_source ` set (filtered_chunks cfg srv question)"
    using query_done [OF assms] by (simp add: unique_loop_set)
  moreover have "set (filtered_chunks cfg srv question) \<noteq> {}"
    using assms(2) by simp
  ultimately show ?thesis
    by (auto simp: chunk_source_def)
qed

section \<open>Scenarios of the pipeline\<close>

lemma ungrounded_code:
  "ungrounded response =
     list_ex (\<lambda>marker. str_in marker (lower response)) hallucination_markers"
  by (simp add: ungrounded_def list_ex_str_in)




lemma as_an_ai_ungrounded:
  "list_ex (\<lambda>marker. str_in marker (lower ''As an AI, I don't have access to real-time data''))
     hallucination_markers = True"
  by code_simp



section \<open>Validation, blocked topics and sources\<close>

text \<open>
  C7. \<open>validate_response\<close> returns the no-context refusal if the chunk list is empty or the
  lower-cased response contains a hallucination marker, and the response itself otherwise;
  so its result is always the response or that refusal.
\<close>

theorem validate_response_cases:
  "validate_response response chunks =
     (if chunks = [] \<or>
         (\<exists>marker \<in> set hallucination_markers. \<exists>a b. lower response = a @ marker @ b)
      then REFUSAL_NO_CONTEXT else response) \<and>
   validate_response response chunks \<in> {response, REFUSAL_NO_CONTEXT}"
  by (cases chunks) (simp_all add: validate_response_def list_ex_str_in)

lemma dress_reply_clean:
  "list_ex (\<lambda>marker. str_in marker (lower ''Business casual.'')) hallucination_markers = False"
  by code_simp

theorem validate_response_cases_witness:
  "validate_response ''Business casual.'' ([] :: real chunk list) = REFUSAL_NO_CONTEXT \<and>
   validate_response ''As an AI, I don't have access to real-time data''
     [named_chunk ''a.pdf'' (2 / 10) ''Text''] = REFUSAL_NO_CONTEXT \<and>
   validate_response ''Business casual.'' [named_chunk ''a.pdf'' (2 / 10) ''Text''] =
     ''Business casual.''"
proof (intro conjI)
  show "validate_response ''Business casual.'' ([] :: real chunk list) = REFUSAL_NO_CONTEXT"
    using validate_response_cases [of "''Business casual.''" "[] :: real chunk list"] by simp
  show "validate_response ''As an AI, I don't have access to real-time data''
          [named_chunk ''a.pdf'' (2 / 10) ''Text''] = REFUSAL_NO_CONTEXT"
    using validate_response_cases [of "''As an AI, I don't have access to real-time data''"
        "[named_chunk ''a.pdf'' (2 / 10) ''Text'']"] as_an_ai_ungrounded
    by (simp add: list_ex_str_in)
  show "validate_response ''Business casual.'' [named_chunk ''a.pdf'' (2 / 10) ''Text''] =
          ''Business casual.''"
    using validate_response_cases [of "''Business casual.''"
        "[named_chunk ''a.pdf'' (2 / 10) ''Text'']"] dress_reply_clean
    by (simp add: list_ex_str_in)
qed

text \<open>
  C9. Validating a validated response again, with the same chunks, changes nothing: the
  refusal contains no hallucination marker.
\<close>

theorem validate_response_idempotent:
  "validate_response (validate_response response chunks) chunks =
     validate_response response chunks"
  by (cases chunks) (simp_all add: validate_response_def refusal_no_context_clean)

text \<open>
  C3. If the lower-cased question contains a phrase of the blocked-topic list,
  \<open>is_office_related\<close> returns false, whatever keyword, company term or pattern also
  occurs.
\<close>

theorem blocklist_precedence:
  assumes "blocked \<in> set BLOCKED_TOPICS" and "lower question = a @ blocked @ b"
  shows "is_office_related question company_terms = False"
proof -
  have "list_ex (\<lambda>p. str_in p (lower question)) BLOCKED_TOPICS"
    unfolding list_ex_str_in using assms by blast
  then show ?thesis by (simp add: is_office_related_def)
qed

lemma bitcoin_question_lower:
  "lower ''What is the office policy on Bitcoin?'' =
     ''what is the office policy on '' @ ''bitcoin'' @ ''?''"
  by code_simp

lemma bitcoin_question_keyword:
  "str_in ''office'' (lower ''What is the office policy on Bitcoin?'') = True"
  by code_simp

theorem blocklist_precedence_witness:
  "''bitcoin'' \<in> set BLOCKED_TOPICS \<and>
   ''office'' \<in> set OFFICE_KEYWORDS \<and>
   str_in ''office'' (lower ''What is the office policy on Bitcoin?'') \<and>
   is_office_related ''What is the office policy on Bitcoin?'' (Some [''Bitcoin'']) = False"
proof -
  have blocked: "''bitcoin'' \<in> set BLOCKED_TOPICS"
    by (simp add: BLOCKED_TOPICS_def)
  have keyword: "''office'' \<in> set OFFICE_KEYWORDS"
    by (simp add: OFFICE_KEYWORDS_def)
  show ?thesis
    using blocklist_precedence [OF blocked bitcoin_question_lower, of "Some [''Bitcoin'']"]
      blocked keyword bitcoin_question_keyword
    by simp
qed

theorem query_no_context_witness:
  "is_office_related ''What is the dress code policy?'' None \<and>
   query default_settings
     (fixed_services [named_chunk ''a.pdf'' (9 / 10) ''One'', named_chunk ''b.pdf'' (9 / 10) ''Two'']
        (ok_response ''Business casual.''))
     ''What is the dress code policy?'' None =
   ([SearchCall ''office information: What is the dress code policy?'' 5],
    Inr \<lparr>answer = REFUSAL_NO_CONTEXT, sources = [], was_filtered = False\<rparr>)"
proof -
  let ?srv = "fixed_services
     [named_chunk ''a.pdf'' (9 / 10) ''One'', named_chunk ''b.pdf'' (9 / 10) ''Two'']
     (ok_response ''Business casual.'')"
  have scope: "is_office_related ''What is the dress code policy?'' None"
    using dress_code_in_scope by simp
  have far: "\<forall>c \<in> set (retrieved_chunks default_settings ?srv ''What is the dress code policy?'').
               \<not> distance c \<le> 1 - relevance_score_threshold default_settings"
    by (simp add: retrieved_chunks_def fixed_services_def named_chunk_def default_settings_def)
  show ?thesis
    using query_no_context [OF scope far, of None] scope
    by (simp add: search_call_def default_settings_def)
qed

lemma strip_dress_reply: "strip ''Business casual.'' = ''Business casual.''"
  by code_simp

lemma scenario_done:
  assumes "filtered_chunks default_settings (fixed_services chunks (ok_response ''Business casual.''))
             ''What is the dress code policy?'' \<noteq> []"
  shows "snd (query default_settings (fixed_services chunks (ok_response ''Business casual.''))
               ''What is the dress code policy?'' None) =
         Inr \<lparr>answer = ''Business casual.'',
              sources = first_occurrences (map chunk_source
                (filtered_chunks default_settings
                   (fixed_services chunks (ok_response ''Business casual.''))
                   ''What is the dress code policy?'')),
              was_filtered = False\<rparr>"
proof -
  have scope: "is_office_related ''What is the dress code policy?'' None"
    using dress_code_in_scope by simp
  show ?thesis
    unfolding query_outcome [OF scope assms]
    by (simp add: fixed_post ok_response_def response_content_def strip_dress_reply
        ungrounded_code dress_reply_clean)
qed

lemma first_occurrences_example:
  "first_occurrences [''a.pdf'', ''b.pdf'', ''a.pdf''] = [''a.pdf'', ''b.pdf'']"
  by code_simp

theorem query_sources_deduplicated_witness:
  "\<exists>result.
     snd (query default_settings
            (fixed_services
               [named_chunk ''a.pdf'' (1 / 10) ''One'', named_chunk ''b.pdf'' (2 / 10) ''Two'',
                named_chunk ''a.pdf'' (3 / 10) ''Three'']
               (ok_response ''Business casual.''))
            ''What is the dress code policy?'' None) = Inr result \<and>
     sources result = [''a.pdf'', ''b.pdf'']"
proof -
  let ?cs = "[named_chunk ''a.pdf'' (1 / 10) ''One'', named_chunk ''b.pdf'' (2 / 10) ''Two'',
              named_chunk ''a.pdf'' (3 / 10) ''Three'']"
  let ?srv = "fixed_services ?cs (ok_response ''Business casual.'')"
  let ?q = "''What is the dress code policy?''"
  have scope: "is_office_related ?q None"
    using dress_code_in_scope by simp
  have kept: "filtered_chunks default_settings ?srv ?q = ?cs"
    by (simp add: fixed_filtered named_chunk_def)
  then have ne: "filtered_chunks default_settings ?srv ?q \<noteq> []"
    by simp
  obtain result where res: "snd (query default_settings ?srv ?q None) = Inr result"
    using scenario_done [OF ne] by blast
  have names: "map chunk_source ?cs = [''a.pdf'', ''b.pdf'', ''a.pdf'']"
    by (simp add: named_chunk_def chunk_source_def)
  have "sources result = [''a.pdf'', ''b.pdf'']"
    using query_sources_deduplicated [OF scope ne res]
    by (simp only: kept names first_occurrences_example)
  with res show ?thesis by blast
qed

theorem query_sources_nonempty_witness:
  "\<exists>result.
     snd (query default_settings
            (fixed_services [unnamed_chunk (1 / 10) ''One'', named_chunk ''a.pdf'' (2 / 10) ''Two'']
               (ok_response ''Business casual.''))
            ''What is the dress code policy?'' None) = Inr result \<and>
     sources result \<noteq> [] \<and> ''Unknown'' \<in> set (sources result)"
proof -
  let ?cs = "[unnamed_chunk (1 / 10) ''One'', named_chunk ''a.pdf'' (2 / 10) ''Two'']"
  let ?srv = "fixed_services ?cs (ok_response ''Business casual.'')"
  let ?q = "''What is the dress code policy?''"
  have scope: "is_office_related ?q None"
    using dress_code_in_scope by simp
  have kept: "filtered_chunks default_settings ?srv ?q = ?cs"
    by (simp add: fixed_filtered named_chunk_def unnamed_chunk_def)
  then have ne: "filtered_chunks default_settings ?srv ?q \<noteq> []"
    by simp
  obtain result where res: "snd (query default_settings ?srv ?q None) = Inr result"
    using scenario_done [OF ne] by blast
  have "sources result \<noteq> [] \<and>
        (\<forall>c \<in> set ?cs. (case metadata c ''filename'' of None \<Rightarrow> ''Unknown'' | Some name \<Rightarrow> name)
           \<in> set (sources result))"
    using query_sources_nonempty [OF scope ne res] unfolding kept .
  then have "sources result \<noteq> [] \<and> ''Unknown'' \<in> set (sources result)"
    by (simp add: unnamed_chunk_def)
  with res show ?thesis by blast
qed

section \<open>The context budget\<close>

text \<open>
  C2, as the code has it. With the budget \<open>B = max_tokens * 4\<close>, \<open>build_context\<close> returns
  the join of the formatted entries of the first \<open>n\<close> chunks, each entry whole, where the
  lengths of these \<open>n\<close> entries add up to at most \<open>B\<close> and the next entry, if there is
  one, would bring the sum above \<open>B\<close>. The separators are not counted against the budget:
  for \<open>n > 0\<close> the result has the length of the entries plus \<open>7 * (n - 1)\<close>, and for
  \<open>n = 0\<close> it is empty.
\<close>

theorem build_context_budget:
  "\<exists>n\<le>length chunks.
     build_context cfg chunks max_tokens =
       join CONTEXT_SEPARATOR (map format_entry (take n chunks)) \<and>
     (n = 0 \<longrightarrow> build_context cfg chunks max_tokens = []) \<and>
     (0 < n \<longrightarrow>
        entries_length (take n chunks) \<le> or_default max_tokens (max_context_tokens cfg) * 4 \<and>
        int (length (build_context cfg chunks max_tokens)) =
          entries_length (take n chunks) + 7 * (int n - 1)) \<and>
     (n < length chunks \<longrightarrow>
        or_default max_tokens (max_context_tokens cfg) * 4 < entries_length (take (Suc n) chunks))"
proof -
  let ?B = "or_default max_tokens (max_context_tokens cfg) * 4"
  obtain n where n: "n \<le> length chunks"
    and res: "context_loop ?B chunks [] 0 = [] @ map format_entry (take n chunks)"
    and fit: "0 < n \<longrightarrow> 0 + entries_length (take n chunks) \<le> ?B"
    and stop: "n < length chunks \<longrightarrow> ?B < 0 + entries_length (take (Suc n) chunks)"
    using context_loop_prefix [of chunks ?B "[]" 0] by blast
  have eq: "build_context cfg chunks max_tokens =
              join CONTEXT_SEPARATOR (map format_entry (take n chunks))"
    using res by (simp add: build_context_def)
  have len: "int (length (build_context cfg chunks max_tokens)) =
               entries_length (take n chunks) + 7 * (int n - 1)" if "0 < n"
  proof -
    from that n have ne: "map format_entry (take n chunks) \<noteq> []" by auto
    have "length (take n chunks) = n" using n by simp
    then show ?thesis
      unfolding eq using join_length [OF ne, of CONTEXT_SEPARATOR]
      by (simp add: separator_length entries_length_def comp_def)
  qed
  show ?thesis
    using n eq fit stop len by (intro exI [of _ n]) auto
qed

text \<open>
  C2, as the claim states it, fails: with a budget of 40 characters and two entries of 20
  characters each, both are accepted and the result has 47 characters.
\<close>

theorem build_context_over_budget:
  "\<not> int (length (build_context (default_settings\<lparr>max_context_tokens := 10\<rparr>)
          [named_chunk ''a'' 0 ''xxxxxxxx'', named_chunk ''a'' 0 ''yyyyyyyy''] None)) \<le> 10 * 4"
  by (simp add: build_context_def or_default_def default_settings_def named_chunk_def
      format_entry_def chunk_source_def CONTEXT_SEPARATOR_def)

lemma entry_length_example:
  "int (length (format_entry (named_chunk ''a'' d ''xxxxxxxx''))) = 20"
  by (simp add: format_entry_def chunk_source_def named_chunk_def)

theorem build_context_budget_witness:
  "build_context (default_settings\<lparr>max_context_tokens := 10\<rparr>)
     [named_chunk ''a'' 0 ''xxxxxxxx'', named_chunk ''a'' 0 ''xxxxxxxx'',
      named_chunk ''a'' 0 ''xxxxxxxx''] None =
   join CONTEXT_SEPARATOR
     [format_entry (named_chunk ''a'' 0 ''xxxxxxxx''),
      format_entry (named_chunk ''a'' 0 ''xxxxxxxx'')] \<and>
   int (length (build_context (default_settings\<lparr>max_context_tokens := 10\<rparr>)
     [named_chunk ''a'' 0 ''xxxxxxxx'', named_chunk ''a'' 0 ''xxxxxxxx'',
      named_chunk ''a'' 0 ''xxxxxxxx''] None)) = 47"
proof -
  let ?cfg = "default_settings\<lparr>max_context_tokens := 10\<rparr>"
  let ?c = "named_chunk ''a'' 0 ''xxxxxxxx''"
  let ?cs = "[?c, ?c, ?c]"
  have budget: "or_default None (max_context_tokens ?cfg) * 4 = 40"
    by (simp add: or_default_def)
  have len: "entries_length (take k ?cs) = 20 * int (min k 3)" for k
  proof -
    have "k = 0 \<or> k = 1 \<or> k = 2 \<or> 3 \<le> k" by arith
    then show ?thesis
      by (auto simp: entries_length_def entry_length_example numeral_2_eq_2)
  qed
  obtain n where n: "n \<le> length ?cs"
    and res: "build_context ?cfg ?cs None =
                join CONTEXT_SEPARATOR (map format_entry (take n ?cs))"
    and fit: "0 < n \<longrightarrow>
                entries_length (take n ?cs) \<le> or_default None (max_context_tokens ?cfg) * 4 \<and>
                int (length (build_context ?cfg ?cs None)) =
                  entries_length (take n ?cs) + 7 * (int n - 1)"
    and stop: "n < length ?cs \<longrightarrow>
                or_default None (max_context_tokens ?cfg) * 4 < entries_length (take (Suc n) ?cs)"
    using build_context_budget [of ?cs ?cfg None] by blast
  have upper: "0 < n \<longrightarrow> 20 * int (min n 3) \<le> 40"
    using fit unfolding budget len by blast
  have lower: "n < 3 \<longrightarrow> 40 < 20 * int (min (Suc n) 3)"
    using stop unfolding budget len by simp
  have "n = 2"
    using n upper lower by (cases "n < 3") (simp_all add: min_def split: if_splits)
  then show ?thesis
    using res fit unfolding len by (simp add: numeral_2_eq_2)
qed

end
